theory Spec2Isabelle
  imports Main "HOL-Library.Word"
begin

section \<open>Values shared by the Manager's handlers\<close>

text \<open>
  A \<open>Uint8Array\<close> (and a Node \<open>Buffer\<close>) is a list of bytes; \<open>Buffer.equals\<close> is
  equality of the two byte lists.
\<close>

type_synonym bytes = "8 word list"

text \<open>
  JSON values, as they travel in HTTP bodies and come out of \<open>JSON.parse\<close>. Numbers are
  restricted to integers; no handler modelled here computes with them.
\<close>

datatype json =
    JNull
  | JBool bool
  | JNum int
  | JStr string
  | JArr "json list"
  | JObj "(string \<times> json) list"

text \<open>
  What a \<open>throw\<close> carries. \<open>Error\<close>, \<open>TypeError\<close> and \<open>SyntaxError\<close> are instances of
  JavaScript's \<open>Error\<close> and carry a message; \<open>Thrown\<close> is any other thrown value.
\<close>

datatype thrown =
    Error string
  | TypeError string
  | SyntaxError string
  | Thrown json

fun instanceof_Error :: "thrown \<Rightarrow> bool" where
  "instanceof_Error (Thrown v) = False"
| "instanceof_Error e = True"

fun message :: "thrown \<Rightarrow> string" where
  "message (Error m) = m"
| "message (TypeError m) = m"
| "message (SyntaxError m) = m"
| "message (Thrown v) = []"

record PrivateKey =
  raw :: bytes

text \<open>
  A libp2p peer id: \<open>peerId.toString()\<close> and \<open>peerId.publicKey?.raw\<close> (the public key
  may be absent).
\<close>

record PeerId =
  toString :: string
  publicKey :: "bytes option"

section \<open>Settings\<close>

text \<open>\<open>ManagerSettings\<close>, and \<open>Partial<ManagerSettings>\<close> with every field optional.\<close>

record ManagerSettings =
  port :: int
  autoManage :: bool
  listen :: "string list"
  announce :: "string list"
  paymentBatchSize :: int
  requireAccessCodes :: bool
  paymentAccount :: "string option"
  withAdmin :: bool

record PartialManagerSettings =
  settings_port :: "int option"
  settings_autoManage :: "bool option"
  settings_listen :: "string list option"
  settings_announce :: "string list option"
  settings_paymentBatchSize :: "int option"
  settings_requireAccessCodes :: "bool option"
  settings_paymentAccount :: "string option"
  settings_withAdmin :: "bool option"

text \<open>
  The constants imported from \<open>./consts.js\<close> and from the protocol core. Their values
  are declared in those modules, so they are parameters here.
\<close>

record Consts =
  PAYMENT_BATCH_SIZE :: int
  TASK_ACCEPTANCE_TIME :: int
  PROTOCOL_VERSION :: string
  PROTOCOL_NAME :: string

text \<open>The nullish coalescing operator \<open>a ?? b\<close>.\<close>

definition nullish :: "'a option \<Rightarrow> 'a \<Rightarrow> 'a" where
  "nullish a b = (case a of None \<Rightarrow> b | Some v \<Rightarrow> v)"

text \<open>
  \<open>ToString\<close> of a Number that holds an integer. An integer of magnitude below \<open>2^53\<close>
  is held exactly and prints as its decimal numeral. Beyond that a Number is rounded,
  and from \<open>1e21\<close> on it prints in exponent form: what is printed there is left to the
  parameter \<open>toStringLarge\<close>. \<open>decimal\<close> gives the digits of a natural number.
\<close>

function decimal :: "nat \<Rightarrow> string" where
  "decimal n =
     (if n < 10 then [''0123456789'' ! n]
      else decimal (n div 10) @ [''0123456789'' ! (n mod 10)])"
  by pat_completeness auto
termination
  by (relation "measure (\<lambda>n. n)") auto

definition number_toString :: "(int \<Rightarrow> string) \<Rightarrow> int \<Rightarrow> string" where
  "number_toString toStringLarge i =
     (if \<bar>i\<bar> < 2 ^ 53
      then (if i < 0 then CHR ''-'' # decimal (nat (- i)) else decimal (nat i))
      else toStringLarge i)"

text \<open>
  \<open>${v}\<close> inside a template literal: \<open>ToString\<close> of the number, and the text
  \<open>undefined\<close> for an absent value.
\<close>

definition template_number :: "(int \<Rightarrow> string) \<Rightarrow> int option \<Rightarrow> string" where
  "template_number toStringLarge v =
     (case v of None \<Rightarrow> ''undefined'' | Some i \<Rightarrow> number_toString toStringLarge i)"

text \<open>The object literal \<open>managerSettings\<close> of \<open>createManager\<close>.\<close>

definition managerSettings_of ::
  "Consts \<Rightarrow> (int \<Rightarrow> string) \<Rightarrow> PartialManagerSettings \<Rightarrow> ManagerSettings" where
  "managerSettings_of c toStringLarge settings =
     \<lparr> port = nullish (settings_port settings) 19955,
       autoManage = nullish (settings_autoManage settings) True,
       listen = nullish (settings_listen settings)
                  [''/ip4/0.0.0.0/tcp/'' @ template_number toStringLarge (settings_port settings) @ ''/ws''],
       announce = nullish (settings_announce settings) [],
       paymentBatchSize = nullish (settings_paymentBatchSize settings) (PAYMENT_BATCH_SIZE c),
       requireAccessCodes = nullish (settings_requireAccessCodes settings) True,
       paymentAccount = settings_paymentAccount settings,
       withAdmin = nullish (settings_withAdmin settings) True \<rparr>"

section \<open>The entity and its transports\<close>

record 'ds Libp2pOptions =
  autoStart :: bool
  datastore :: 'ds
  libp2p_privateKey :: PrivateKey
  libp2p_listen :: "string list"
  libp2p_announce :: "string list"
  libp2p_transports :: "string list"

datatype 'ds transport =
    HttpTransport int
  | Libp2pTransport "'ds Libp2pOptions"

record Protocol =
  protocol_name :: string
  protocol_version :: string

text \<open>
  The entity \<open>createEffectEntity\<close> returns: the options it was built from, and the peer
  id of its libp2p node. The node's peer id is decided by the protocol core from the
  private key, so it is the parameter \<open>peerIdOf\<close>.
\<close>

record 'ds Entity =
  protocol :: Protocol
  transports :: "'ds transport list"
  node_peerId :: PeerId

definition createManagerEntity ::
  "Consts \<Rightarrow> (PrivateKey \<Rightarrow> PeerId) \<Rightarrow> 'ds \<Rightarrow> PrivateKey \<Rightarrow> string list
     \<Rightarrow> string list option \<Rightarrow> 'ds Entity" where
  "createManagerEntity c peerIdOf ds privateKey listen_addrs announce_addrs =
     \<lparr> protocol = \<lparr> protocol_name = PROTOCOL_NAME c, protocol_version = PROTOCOL_VERSION c \<rparr>,
       transports =
         [ HttpTransport 8889,
           Libp2pTransport
             \<lparr> autoStart = True,
               datastore = ds,
               libp2p_privateKey = privateKey,
               libp2p_listen = listen_addrs,
               libp2p_announce = (case announce_addrs of None \<Rightarrow> [] | Some a \<Rightarrow> a),
               libp2p_transports = [''webSockets''] \<rparr> ],
       node_peerId = peerIdOf privateKey \<rparr>"

text \<open>The ports of the HTTP transports an entity was built with.\<close>

fun http_ports :: "'ds transport list \<Rightarrow> int list" where
  "http_ports [] = []"
| "http_ports (HttpTransport p # ts) = p # http_ports ts"
| "http_ports (Libp2pTransport opts # ts) = http_ports ts"

section \<open>Creating the Manager\<close>

text \<open>
  The cryptographic collaborators: \<open>buildEddsa\<close> (\<open>prv2pub\<close> and the field's
  \<open>toObject\<close>), the helpers of \<open>./utils.js\<close>, and Solana's \<open>PublicKey\<close>, whose
  constructor throws on an input that is not a key.
\<close>

record 'fe Eddsa =
  prv2pub :: "bytes \<Rightarrow> 'fe \<times> 'fe"
  F_toObject :: "'fe \<Rightarrow> int"

record Utils =
  bigIntToBytes32 :: "int \<Rightarrow> bytes"
  compressBabyJubJubPubKey :: "bytes \<Rightarrow> bytes \<Rightarrow> bytes"

record 'pk Solana =
  PublicKey_of_bytes :: "bytes \<Rightarrow> thrown + 'pk"
  PublicKey_of_string :: "string \<Rightarrow> thrown + 'pk"
  toBase58 :: "'pk \<Rightarrow> string"

text \<open>
  What the handlers registered by \<open>createManager\<close> close over. Building the stores and
  the other modules, and starting the control loop, leave these values as they are and
  are not modelled; \<open>createManager\<close> fails here exactly when \<open>new PublicKey\<close> throws.
\<close>

record ('fe, 'pk, 'ds) Manager =
  managerSettings :: ManagerSettings
  manager_privateKey :: PrivateKey
  pubKey :: "'fe \<times> 'fe"
  compressedPubKey :: bytes
  solanaPublicKey :: 'pk
  entity :: "'ds Entity"

definition createManager ::
  "Consts \<Rightarrow> (int \<Rightarrow> string) \<Rightarrow> 'fe Eddsa \<Rightarrow> Utils \<Rightarrow> 'pk Solana \<Rightarrow> (PrivateKey \<Rightarrow> PeerId)
     \<Rightarrow> 'ds \<Rightarrow> PrivateKey \<Rightarrow> PartialManagerSettings \<Rightarrow> thrown + ('fe, 'pk, 'ds) Manager" where
  "createManager c toStringLarge eddsa utils solana peerIdOf ds privateKey settings =
     (let ms = managerSettings_of c toStringLarge settings;
          pk = prv2pub eddsa (take 32 (raw privateKey));
          compressed = compressBabyJubJubPubKey utils
                         (bigIntToBytes32 utils (F_toObject eddsa (fst pk)))
                         (bigIntToBytes32 utils (F_toObject eddsa (snd pk)))
      in case PublicKey_of_bytes solana compressed of
           Inl e \<Rightarrow> Inl e
         | Inr spk \<Rightarrow>
             Inr \<lparr> managerSettings = ms,
                   manager_privateKey = privateKey,
                   pubKey = pk,
                   compressedPubKey = compressed,
                   solanaPublicKey = spk,
                   entity = createManagerEntity c peerIdOf ds privateKey
                              (listen ms) (Some (announce ms)) \<rparr>)"

text \<open>\<open>entity.getPeerId()\<close>: the peer id of the entity's node.\<close>

definition getPeerId :: "'ds Entity \<Rightarrow> PeerId" where
  "getPeerId e = node_peerId e"

section \<open>Message handlers\<close>

text \<open>
  The worker manager, the payment manager, the task manager and the template store live
  in other modules. Each handler below takes the operations it calls as parameters, over
  one state \<open>'s\<close> that stands for everything those modules persist. An operation that
  may throw and may write returns \<open>(thrown + result) \<times> 's\<close>.
\<close>

text \<open>
  Of a worker record, the handlers read \<open>state.recipient\<close>, which may be unset; that a
  record exists at all is what \<open>getWorker\<close> returning one means.
\<close>

record WorkerState =
  worker_recipient :: "string option"

record WorkerRecord =
  worker_state :: WorkerState

record IdentifyResponse =
  peer :: bytes
  pubkey :: string
  batchSize :: int
  taskTimeout :: int
  version :: string
  requiresRegistration :: bool
  isRegistered :: bool
  isConnected :: bool

datatype EffectProtocolMessage =
    identifyResponse IdentifyResponse
  | templateResponse "(string \<times> json) list"

subsection \<open>\<open>identifyRequest\<close>\<close>

definition on_identifyRequest ::
  "Consts \<Rightarrow> 'pk Solana \<Rightarrow> ('s \<Rightarrow> string \<Rightarrow> WorkerRecord option) \<Rightarrow> ('s \<Rightarrow> string list)
     \<Rightarrow> ('fe, 'pk, 'ds) Manager \<Rightarrow> 's \<Rightarrow> PeerId \<Rightarrow> thrown + EffectProtocolMessage" where
  "on_identifyRequest c solana getWorker workerQueue m s peerId =
     (let worker = getWorker s (toString peerId);
          connected = (toString peerId \<in> set (workerQueue s))
      in case publicKey (node_peerId (entity m)) of
           None \<Rightarrow> Inl (Error ''Peer ID is not set'')
         | Some k \<Rightarrow>
             Inr (identifyResponse
                   \<lparr> peer = k,
                     pubkey = toBase58 solana (solanaPublicKey m),
                     batchSize = PAYMENT_BATCH_SIZE c,
                     taskTimeout = TASK_ACCEPTANCE_TIME c,
                     version = PROTOCOL_VERSION c,
                     requiresRegistration = requireAccessCodes (managerSettings m),
                     isRegistered = (worker \<noteq> None),
                     isConnected = connected \<rparr>))"

subsection \<open>\<open>proofRequest\<close>\<close>

text \<open>
  Modelled from the spec: the type \<open>Payment\<close> is declared in the protocol core. A
  payment record has a recipient, a nonce and an amount; the handler reads the recipient.
\<close>

record Payment =
  payment_recipient :: string
  payment_nonce :: int
  payment_amount :: int

record ProofRequest =
  payments :: "Payment list"

text \<open>
  \<open>bs58.decode\<close> throws on a string that is not base58, so it returns a sum. Reading
  \<open>payments[0].recipient\<close> of an empty array is a \<open>TypeError\<close>.
\<close>

definition on_proofRequest ::
  "(string \<Rightarrow> thrown + bytes)
     \<Rightarrow> ('s \<Rightarrow> PrivateKey \<Rightarrow> Payment list \<Rightarrow> (thrown + 'r) \<times> 's)
     \<Rightarrow> ('fe, 'pk, 'ds) Manager \<Rightarrow> 's \<Rightarrow> ProofRequest \<Rightarrow> PeerId \<Rightarrow> (thrown + 'r) \<times> 's" where
  "on_proofRequest bs58_decode processProofRequest m s proofRequest peerId =
     (case payments proofRequest of
        [] \<Rightarrow> (Inl (TypeError ''Cannot read properties of undefined (reading 'recipient')''), s)
      | p # ps \<Rightarrow>
          (let recipient = payment_recipient p
           in case publicKey peerId of
                None \<Rightarrow> (Inl (Error ''Peer ID public key is not set''), s)
              | Some k \<Rightarrow>
                  (case bs58_decode recipient of
                     Inl e \<Rightarrow> (Inl e, s)
                   | Inr decoded \<Rightarrow>
                       if k \<noteq> decoded then (Inl (Error ''Forbidden''), s)
                       else processProofRequest s (manager_privateKey m) (payments proofRequest))))"

subsection \<open>\<open>bulkProofRequest\<close>\<close>

record Signals =
  minNonce :: int
  maxNonce :: int
  amount :: int
  signals_recipient :: string

record 'pd ProofResponse =
  signals :: "Signals option"
  proofData :: 'pd

record 'pd BulkProofRequest =
  proofs :: "'pd ProofResponse list"

record 'g BulkProof =
  bulk_proof :: 'g
  publicSignals :: "string list"

text \<open>The argument object of \<open>paymentManager.bulkPaymentProofs\<close>.\<close>

record ('pk, 'g) BulkPaymentArgs =
  bulk_recipient :: 'pk
  bulk_privateKey :: PrivateKey
  r8_x :: int
  r8_y :: int
  bulk_proofs :: "'g BulkProof list"

text \<open>\<open>!recipient\<close>: an absent string and the empty string are both falsy.\<close>

definition falsy_string :: "string option \<Rightarrow> bool" where
  "falsy_string v = (case v of None \<Rightarrow> True | Some t \<Rightarrow> t = [])"

text \<open>
  One element of \<open>proofRequest.proofs.map(...)\<close>. \<open>p.signals!\<close> on a proof without
  signals would read a property of \<open>undefined\<close>.
\<close>

definition bulk_proof_of ::
  "(int \<Rightarrow> string) \<Rightarrow> ('pd ProofResponse \<Rightarrow> 'g) \<Rightarrow> 'pd ProofResponse
     \<Rightarrow> thrown + 'g BulkProof" where
  "bulk_proof_of toStringLarge proofResponseToGroth16Proof p =
     (case signals p of
        None \<Rightarrow> Inl (TypeError ''Cannot read properties of undefined (reading 'minNonce')'')
      | Some sg \<Rightarrow>
          Inr \<lparr> bulk_proof = proofResponseToGroth16Proof p,
                publicSignals =
                  [ number_toString toStringLarge (minNonce sg),
                    number_toString toStringLarge (maxNonce sg),
                    number_toString toStringLarge (amount sg),
                    signals_recipient sg ] \<rparr>)"

text \<open>\<open>Array.map\<close> with a callback that may throw: the first throw ends the map.\<close>

fun map_throwing :: "('a \<Rightarrow> thrown + 'b) \<Rightarrow> 'a list \<Rightarrow> thrown + 'b list" where
  "map_throwing f [] = Inr []"
| "map_throwing f (x # xs) =
     (case f x of
        Inl e \<Rightarrow> Inl e
      | Inr y \<Rightarrow> (case map_throwing f xs of Inl e \<Rightarrow> Inl e | Inr ys \<Rightarrow> Inr (y # ys)))"

text \<open>
  \<open>worker?.state.recipient\<close> for \<open>worker = await workerManager.getWorker(peerId.toString())\<close>.
\<close>

definition stored_recipient ::
  "('s \<Rightarrow> string \<Rightarrow> WorkerRecord option) \<Rightarrow> 's \<Rightarrow> PeerId \<Rightarrow> string option" where
  "stored_recipient getWorker s peerId =
     (case getWorker s (toString peerId) of
        None \<Rightarrow> None
      | Some worker \<Rightarrow> worker_recipient (worker_state worker))"

text \<open>
  The handler up to the call of \<open>bulkPaymentProofs\<close>: either it throws, or it has built
  the argument object it forwards.
\<close>

definition bulkProofRequest_args ::
  "(int \<Rightarrow> string) \<Rightarrow> 'fe Eddsa \<Rightarrow> 'pk Solana \<Rightarrow> ('pd ProofResponse \<Rightarrow> 'g)
     \<Rightarrow> ('s \<Rightarrow> string \<Rightarrow> WorkerRecord option)
     \<Rightarrow> ('fe, 'pk, 'ds) Manager \<Rightarrow> 's \<Rightarrow> 'pd BulkProofRequest \<Rightarrow> PeerId
     \<Rightarrow> thrown + ('pk, 'g) BulkPaymentArgs" where
  "bulkProofRequest_args toStringLarge eddsa solana proofResponseToGroth16Proof getWorker m s
       proofRequest peerId =
     (let recipient = stored_recipient getWorker s peerId
      in if falsy_string recipient then Inl (Error ''Worker not found or recipient not set'')
         else if \<not> list_all (\<lambda>p. signals p \<noteq> None) (proofs proofRequest)
           then Inl (Error ''All proofs must have signals for bulk payment'')
         else
           (case PublicKey_of_string solana (the recipient) of
              Inl e \<Rightarrow> Inl e
            | Inr rk \<Rightarrow>
                (case map_throwing (bulk_proof_of toStringLarge proofResponseToGroth16Proof) (proofs proofRequest) of
                   Inl e \<Rightarrow> Inl e
                 | Inr ps \<Rightarrow>
                     Inr \<lparr> bulk_recipient = rk,
                           bulk_privateKey = manager_privateKey m,
                           r8_x = F_toObject eddsa (fst (pubKey m)),
                           r8_y = F_toObject eddsa (snd (pubKey m)),
                           bulk_proofs = ps \<rparr>)))"

definition on_bulkProofRequest ::
  "(int \<Rightarrow> string) \<Rightarrow> 'fe Eddsa \<Rightarrow> 'pk Solana \<Rightarrow> ('pd ProofResponse \<Rightarrow> 'g)
     \<Rightarrow> ('s \<Rightarrow> string \<Rightarrow> WorkerRecord option)
     \<Rightarrow> ('s \<Rightarrow> ('pk, 'g) BulkPaymentArgs \<Rightarrow> (thrown + 'r) \<times> 's)
     \<Rightarrow> ('fe, 'pk, 'ds) Manager \<Rightarrow> 's \<Rightarrow> 'pd BulkProofRequest \<Rightarrow> PeerId \<Rightarrow> (thrown + 'r) \<times> 's" where
  "on_bulkProofRequest toStringLarge eddsa solana proofResponseToGroth16Proof getWorker
       bulkPaymentProofs m s proofRequest peerId =
     (case bulkProofRequest_args toStringLarge eddsa solana proofResponseToGroth16Proof getWorker m s
             proofRequest peerId of
        Inl e \<Rightarrow> (Inl e, s)
      | Inr args \<Rightarrow> bulkPaymentProofs s args)"

subsection \<open>\<open>templateRequest\<close>\<close>

record TemplateRecord =
  template_state :: "(string \<times> json) list"

record TemplateRequest =
  templateId :: string

text \<open>Object spread \<open>{ ...v }\<close>: the own fields of \<open>v\<close>, and no field for \<open>undefined\<close>.\<close>

definition spread :: "(string \<times> json) list option \<Rightarrow> (string \<times> json) list" where
  "spread v = (case v of None \<Rightarrow> [] | Some obj \<Rightarrow> obj)"

text \<open>
  \<open>templateStore.get\<close> is awaited with no \<open>catch\<close> around it: when the store throws, the
  handler throws the same value. Otherwise the store yields a record or \<open>undefined\<close>.
\<close>

definition on_templateRequest ::
  "('s \<Rightarrow> string \<Rightarrow> thrown + TemplateRecord option) \<Rightarrow> 's \<Rightarrow> TemplateRequest
     \<Rightarrow> thrown + EffectProtocolMessage" where
  "on_templateRequest templateStore_get s template =
     (case templateStore_get s (templateId template) of
        Inl e \<Rightarrow> Inl e
      | Inr rec \<Rightarrow> Inr (templateResponse (spread (map_option template_state rec))))"

section \<open>HTTP routes\<close>

text \<open>
  A response sent with \<open>res.json\<close>: the status (200 unless \<open>res.status\<close> set another)
  and the JSON body. A handler that sends nothing yields no response.
\<close>

record HttpResponse =
  status :: int
  body :: json

subsection \<open>\<open>POST /task\<close>\<close>

definition post_task ::
  "('s \<Rightarrow> json \<Rightarrow> string \<Rightarrow> (thrown + unit) \<times> 's)
     \<Rightarrow> ('fe, 'pk, 'ds) Manager \<Rightarrow> 's \<Rightarrow> json \<Rightarrow> HttpResponse option \<times> 's" where
  "post_task createTask m s task =
     (case createTask s task (toString (getPeerId (entity m))) of
        (Inr u, s') \<Rightarrow>
          (Some \<lparr> status = 200,
                  body = JObj [(''status'', JStr ''Task received''), (''task'', task)] \<rparr>, s')
      | (Inl e, s') \<Rightarrow>
          if instanceof_Error e
          then (Some \<lparr> status = 500,
                       body = JObj [(''status'', JStr ''Error creating task''),
                                    (''error'', JStr (message e))] \<rparr>, s')
          else (None, s'))"

subsection \<open>\<open>GET /tasks/:templateid\<close>\<close>







section \<open>A small concrete instance\<close>

text \<open>
  Toy collaborators on which the theorems below are run: field elements are integers,
  a Solana key is its byte list, and base58 text is replaced by one letter per byte.
\<close>

definition example_consts :: Consts where
  "example_consts =
     \<lparr> PAYMENT_BATCH_SIZE = 100, TASK_ACCEPTANCE_TIME = 30000,
       PROTOCOL_VERSION = ''1.0.0'', PROTOCOL_NAME = ''effectai'' \<rparr>"

definition example_toStringLarge :: "int \<Rightarrow> string" where
  "example_toStringLarge i = ''1e+21''"

definition example_eddsa :: "int Eddsa" where
  "example_eddsa = \<lparr> prv2pub = (\<lambda>b. (int (length b), 7)), F_toObject = (\<lambda>x. x) \<rparr>"

definition example_utils :: Utils where
  "example_utils =
     \<lparr> bigIntToBytes32 = (\<lambda>i. [word_of_int i]),
       compressBabyJubJubPubKey = (\<lambda>x y. x @ y) \<rparr>"

definition example_text :: "bytes \<Rightarrow> string" where
  "example_text b = map (\<lambda>w. ''0123456789'' ! (unat w mod 10)) b"

definition example_solana :: "bytes Solana" where
  "example_solana =
     \<lparr> PublicKey_of_bytes =
         (\<lambda>b. if length b > 32 then Inl (Error ''Invalid public key input'') else Inr b),
       PublicKey_of_string =
         (\<lambda>t. if t = ''R1'' then Inr [1] else Inl (Error ''Invalid public key input'')),
       toBase58 = example_text \<rparr>"

definition example_privateKey :: PrivateKey where
  "example_privateKey = \<lparr> raw = [1, 2, 3] \<rparr>"

definition example_peerIdOf :: "PrivateKey \<Rightarrow> PeerId" where
  "example_peerIdOf k = \<lparr> toString = ''manager'', publicKey = Some (raw k) \<rparr>"

definition no_settings :: PartialManagerSettings where
  "no_settings =
     \<lparr> settings_port = None, settings_autoManage = None, settings_listen = None,
       settings_announce = None, settings_paymentBatchSize = None,
       settings_requireAccessCodes = None, settings_paymentAccount = None,
       settings_withAdmin = None \<rparr>"

definition example_settings :: PartialManagerSettings where
  "example_settings =
     no_settings \<lparr> settings_paymentBatchSize := Some 4, settings_requireAccessCodes := Some False \<rparr>"

definition example_manager :: "(int, bytes, unit) Manager" where
  "example_manager =
     \<lparr> managerSettings = managerSettings_of example_consts example_toStringLarge example_settings,
       manager_privateKey = example_privateKey,
       pubKey = (3, 7),
       compressedPubKey = [3, 7],
       solanaPublicKey = [3, 7],
       entity = createManagerEntity example_consts example_peerIdOf () example_privateKey
                  [''/ip4/0.0.0.0/tcp/undefined/ws''] (Some []) \<rparr>"

text \<open>Two workers: \<open>W1\<close> is registered with recipient \<open>R1\<close>, \<open>W2\<close> is unknown.\<close>

definition example_getWorker :: "unit \<Rightarrow> string \<Rightarrow> WorkerRecord option" where
  "example_getWorker s p =
     (if p = ''W1'' then Some \<lparr> worker_state = \<lparr> worker_recipient = Some ''R1'' \<rparr> \<rparr> else None)"

definition example_W1 :: PeerId where
  "example_W1 = \<lparr> toString = ''W1'', publicKey = Some [10] \<rparr>"

definition example_W2 :: PeerId where
  "example_W2 = \<lparr> toString = ''W2'', publicKey = Some [11] \<rparr>"

definition example_bs58_decode :: "string \<Rightarrow> thrown + bytes" where
  "example_bs58_decode t =
     (if t = ''Ka'' then Inr [10] else if t = ''Kb'' then Inr [11]
      else Inl (Error ''Non-base58 character''))"





definition example_processProofRequest ::
  "nat \<Rightarrow> PrivateKey \<Rightarrow> Payment list \<Rightarrow> (thrown + string) \<times> nat" where
  "example_processProofRequest s k ps = (Inr ''signed'', Suc s)"

definition example_payment :: "string \<Rightarrow> Payment" where
  "example_payment r = \<lparr> payment_recipient = r, payment_nonce = 0, payment_amount = 5 \<rparr>"

definition example_createTask :: "nat \<Rightarrow> json \<Rightarrow> string \<Rightarrow> (thrown + unit) \<times> nat" where
  "example_createTask s task p =
     (if task = JNull then (Inl (Error ''Invalid task''), s) else (Inr (), Suc s))"

definition example_bulkPaymentProofs ::
  "unit \<Rightarrow> (bytes, string) BulkPaymentArgs \<Rightarrow> (thrown + bytes) \<times> unit" where
  "example_bulkPaymentProofs s args = (Inr (bulk_recipient args), s)"

definition example_proof :: "string ProofResponse" where
  "example_proof =
     \<lparr> signals = Some \<lparr> minNonce = 0, maxNonce = 3, amount = 20, signals_recipient = ''R2'' \<rparr>,
       proofData = ''pi'' \<rparr>"

section \<open>Facts about \<open>createManager\<close>\<close>

lemma example_createManager:
  "createManager example_consts example_toStringLarge example_eddsa example_utils example_solana example_peerIdOf ()
     example_privateKey example_settings = Inr example_manager"
  by (simp add: createManager_def example_manager_def example_eddsa_def example_utils_def
      example_solana_def example_privateKey_def managerSettings_of_def Let_def
      example_settings_def no_settings_def nullish_def template_number_def)

lemma createManager_settings:
  "createManager c toStringLarge eddsa utils solana peerIdOf ds privateKey settings = Inr m \<Longrightarrow>
     managerSettings m = managerSettings_of c toStringLarge settings"
  by (auto simp: createManager_def Let_def split: sum.splits)

lemma createManager_entity:
  "createManager c toStringLarge eddsa utils solana peerIdOf ds privateKey settings = Inr m \<Longrightarrow>
     entity m = createManagerEntity c peerIdOf ds privateKey
                  (listen (managerSettings_of c toStringLarge settings))
                  (Some (announce (managerSettings_of c toStringLarge settings)))"
  by (auto simp: createManager_def Let_def split: sum.splits)

lemma example_manager_publicKey:
  "publicKey (node_peerId (entity example_manager)) = Some [1, 2, 3]"
  by (simp add: example_manager_def createManagerEntity_def example_peerIdOf_def
      example_privateKey_def)

text \<open>A response of the identify handler, when there is one, is this record.\<close>

lemma identifyRequest_Inr:
  "on_identifyRequest c solana getWorker workerQueue m s peerId = Inr (identifyResponse r) \<Longrightarrow>
     \<exists>k. publicKey (node_peerId (entity m)) = Some k \<and>
       r = \<lparr> peer = k,
             pubkey = toBase58 solana (solanaPublicKey m),
             batchSize = PAYMENT_BATCH_SIZE c,
             taskTimeout = TASK_ACCEPTANCE_TIME c,
             version = PROTOCOL_VERSION c,
             requiresRegistration = requireAccessCodes (managerSettings m),
             isRegistered = (getWorker s (toString peerId) \<noteq> None),
             isConnected = (toString peerId \<in> set (workerQueue s)) \<rparr>"
  by (auto simp: on_identifyRequest_def Let_def split: option.splits)

lemma example_identifyRequest:
  "on_identifyRequest example_consts example_solana example_getWorker (\<lambda>s. [''W1''])
     example_manager () example_W1 =
   Inr (identifyResponse
         \<lparr> peer = [1, 2, 3], pubkey = ''37'', batchSize = 100, taskTimeout = 30000,
           version = ''1.0.0'', requiresRegistration = False, isRegistered = True,
           isConnected = True \<rparr>)"
  by (simp add: on_identifyRequest_def example_manager_def createManagerEntity_def
      example_peerIdOf_def example_privateKey_def example_solana_def example_text_def
      example_consts_def managerSettings_of_def example_settings_def no_settings_def
      nullish_def example_getWorker_def example_W1_def)

section \<open>Facts about \<open>map_throwing\<close> and the callbacks\<close>


lemma map_throwing_total:
  "\<forall>x \<in> set xs. \<exists>y. f x = Inr y \<Longrightarrow> \<exists>ys. map_throwing f xs = Inr ys"
  by (induction xs) auto

lemma bulk_proof_of_total:
  "signals p \<noteq> None \<Longrightarrow> \<exists>b. bulk_proof_of toStringLarge g p = Inr b"
  by (auto simp: bulk_proof_of_def)

lemma list_all_signals:
  "list_all (\<lambda>p. signals p \<noteq> None) ps \<longleftrightarrow> (\<forall>p \<in> set ps. signals p \<noteq> None)"
  by (simp add: list_all_iff)

lemma bulkProofRequest_args_Inr:
  "bulkProofRequest_args toStringLarge eddsa solana g getWorker m s req peerId = Inr args \<Longrightarrow>
     \<exists>rcp. stored_recipient getWorker s peerId = Some rcp \<and> rcp \<noteq> [] \<and>
           PublicKey_of_string solana rcp = Inr (bulk_recipient args)"
  by (auto simp: bulkProofRequest_args_def Let_def falsy_string_def
      split: if_splits option.splits sum.splits)






section \<open>The claims\<close>

text \<open>
  C1. A \<open>proofRequest\<close> yields a signed authorization only when the sender's raw public
  key equals the base58-decoded \<open>payments[0].recipient\<close>, and the authorization is then
  the payment manager's; when the two differ the handler throws \<open>Forbidden\<close> and the
  state is the one it started from.
\<close>

theorem proofRequest_forbidden_unless_sender_is_recipient:
  "(\<forall>auth s'. on_proofRequest bs58_decode processProofRequest m s proofRequest peerId = (Inr auth, s')
      \<longrightarrow> (\<exists>p ps k. payments proofRequest = p # ps \<and> publicKey peerId = Some k \<and>
             bs58_decode (payment_recipient p) = Inr k \<and>
             processProofRequest s (manager_privateKey m) (payments proofRequest) = (Inr auth, s'))) \<and>
   (\<forall>p ps k decoded. payments proofRequest = p # ps \<and> publicKey peerId = Some k \<and>
        bs58_decode (payment_recipient p) = Inr decoded \<and> k \<noteq> decoded
      \<longrightarrow> on_proofRequest bs58_decode processProofRequest m s proofRequest peerId
            = (Inl (Error ''Forbidden''), s))"
  by (auto simp: on_proofRequest_def Let_def
      split: list.splits option.splits sum.splits if_splits)

theorem proofRequest_forbidden_unless_sender_is_recipient_witness:
  "on_proofRequest example_bs58_decode example_processProofRequest example_manager 0
      \<lparr> payments = [example_payment ''Ka''] \<rparr> example_W1 = (Inr ''signed'', 1) \<and>
   (\<exists>p ps k. payments \<lparr> payments = [example_payment ''Ka''] \<rparr> = p # ps \<and>
      publicKey example_W1 = Some k \<and> example_bs58_decode (payment_recipient p) = Inr k) \<and>
   publicKey example_W1 = Some [10] \<and>
   example_bs58_decode ''Ka'' = Inr [10] \<and>
   publicKey example_W2 = Some [11] \<and>
   on_proofRequest example_bs58_decode example_processProofRequest example_manager 0
      \<lparr> payments = [example_payment ''Ka''] \<rparr> example_W2 = (Inl (Error ''Forbidden''), 0)"
proof -
  let ?req = "\<lparr> payments = [example_payment ''Ka''] \<rparr>"
  have ok: "on_proofRequest example_bs58_decode example_processProofRequest example_manager 0
              ?req example_W1 = (Inr ''signed'', 1)"
    by (simp add: on_proofRequest_def example_bs58_decode_def example_processProofRequest_def
        example_payment_def example_W1_def)
  have hyp: "payments ?req = example_payment ''Ka'' # [] \<and>
     publicKey example_W2 = Some [11] \<and>
     example_bs58_decode (payment_recipient (example_payment ''Ka'')) = Inr [10] \<and>
     [11] \<noteq> ([10] :: bytes)"
    by (simp add: example_bs58_decode_def example_payment_def example_W2_def)
  have k1: "publicKey example_W1 = Some [10]"
    by (simp add: example_W1_def)
  have d: "example_bs58_decode ''Ka'' = Inr [10]"
    by (simp add: example_bs58_decode_def)
  from proofRequest_forbidden_unless_sender_is_recipient
         [of example_bs58_decode example_processProofRequest example_manager 0 ?req example_W2]
  have "on_proofRequest example_bs58_decode example_processProofRequest example_manager 0
          ?req example_W2 = (Inl (Error ''Forbidden''), 0)"
    using hyp by blast
  moreover
  from proofRequest_forbidden_unless_sender_is_recipient
         [of example_bs58_decode example_processProofRequest example_manager 0 ?req example_W1]
       ok
  have "\<exists>p ps k. payments ?req = p # ps \<and> publicKey example_W1 = Some k \<and>
          example_bs58_decode (payment_recipient p) = Inr k"
    by blast
  ultimately show ?thesis
    using ok hyp k1 d by blast
qed

text \<open>
  C2. With no \<open>port\<close> and no \<open>listen\<close> in the settings, the merged port is 19955, but the
  default bind address is built from the port as given, not from the merged one: its
  text holds \<open>undefined\<close> where the port should stand. The address on the merged
  port would read \<open>/ip4/0.0.0.0/tcp/19955/ws\<close>.
\<close>

theorem managerSettings_listen_default_ignores_port_default:
  "port (managerSettings_of c toStringLarge no_settings) = 19955 \<and>
   listen (managerSettings_of c toStringLarge no_settings) = [''/ip4/0.0.0.0/tcp/undefined/ws''] \<and>
   [''/ip4/0.0.0.0/tcp/'' @ number_toString toStringLarge (port (managerSettings_of c toStringLarge no_settings)) @ ''/ws'']
     = [''/ip4/0.0.0.0/tcp/19955/ws'']"
  by (simp add: managerSettings_of_def no_settings_def nullish_def template_number_def
      number_toString_def)




text \<open>
  C4. \<open>createManager\<close> derives the signing public key from the first 32 bytes of the
  private key and keeps it, with its compressed form, in what the handlers close over;
  the identify handler, which is not given \<open>prv2pub\<close>, publishes that compressed key
  (as Solana writes a key, in base58) in the \<open>pubkey\<close> field of every response.
\<close>

theorem identifyResponse_pubkey_derived_from_privateKey:
  assumes "createManager c toStringLarge eddsa utils solana peerIdOf ds privateKey settings = Inr m"
      and "on_identifyRequest c solana getWorker workerQueue m s peerId
             = Inr (identifyResponse r)"
  shows "pubKey m = prv2pub eddsa (take 32 (raw privateKey)) \<and>
         compressedPubKey m =
           compressBabyJubJubPubKey utils
             (bigIntToBytes32 utils (F_toObject eddsa (fst (pubKey m))))
             (bigIntToBytes32 utils (F_toObject eddsa (snd (pubKey m)))) \<and>
         PublicKey_of_bytes solana (compressedPubKey m) = Inr (solanaPublicKey m) \<and>
         pubkey r = toBase58 solana (solanaPublicKey m)"
  using identifyRequest_Inr [OF assms(2)] assms(1)
  by (auto simp: createManager_def Let_def split: sum.splits)

theorem identifyResponse_pubkey_derived_from_privateKey_witness:
  "createManager example_consts example_toStringLarge example_eddsa example_utils example_solana example_peerIdOf ()
     example_privateKey example_settings = Inr example_manager \<and>
   (\<exists>r. on_identifyRequest example_consts example_solana example_getWorker (\<lambda>s. [''W1''])
         example_manager () example_W1 = Inr (identifyResponse r) \<and>
        pubKey example_manager = (3, 7) \<and> compressedPubKey example_manager = [3, 7] \<and>
        pubkey r = ''37'')"
  using identifyResponse_pubkey_derived_from_privateKey
          [OF example_createManager example_identifyRequest]
        example_createManager example_identifyRequest
  by (simp add: example_manager_def example_solana_def example_text_def)

text \<open>
  C5. An \<open>identifyRequest\<close> is answered whenever the Manager's own peer id has a public
  key (otherwise the handler throws). The answer carries that key as the Manager's
  identity, the protocol version, \<open>requiresRegistration\<close> equal to the configured
  \<open>requireAccessCodes\<close> (true when not configured), and \<open>isRegistered\<close>, which is true
  exactly when the worker manager has a record for the sender's peer id.
\<close>

theorem identifyResponse_fields:
  assumes "createManager c toStringLarge eddsa utils solana peerIdOf ds privateKey settings = Inr m"
  shows "case publicKey (node_peerId (entity m)) of
           None \<Rightarrow> on_identifyRequest c solana getWorker workerQueue m s peerId
                     = Inl (Error ''Peer ID is not set'')
         | Some k \<Rightarrow>
             (\<exists>r. on_identifyRequest c solana getWorker workerQueue m s peerId
                     = Inr (identifyResponse r) \<and>
                   peer r = k \<and>
                   version r = PROTOCOL_VERSION c \<and>
                   requiresRegistration r = nullish (settings_requireAccessCodes settings) True \<and>
                   (isRegistered r \<longleftrightarrow> (\<exists>w. getWorker s (toString peerId) = Some w)))"
  using createManager_settings [OF assms]
  by (auto simp: on_identifyRequest_def Let_def managerSettings_of_def split: option.splits)

theorem identifyResponse_fields_witness:
  "createManager example_consts example_toStringLarge example_eddsa example_utils example_solana example_peerIdOf ()
     example_privateKey example_settings = Inr example_manager \<and>
   publicKey (node_peerId (entity example_manager)) = Some [1, 2, 3] \<and>
   (\<exists>r. on_identifyRequest example_consts example_solana example_getWorker (\<lambda>s. [''W1''])
           example_manager () example_W2 = Inr (identifyResponse r) \<and>
        peer r = [1, 2, 3] \<and> version r = ''1.0.0'' \<and> \<not> requiresRegistration r \<and>
        \<not> isRegistered r)"
proof -
  have nw: "\<not> (\<exists>w. example_getWorker () (toString example_W2) = Some w)"
    by (simp add: example_getWorker_def example_W2_def)
  show ?thesis
    using identifyResponse_fields
            [OF example_createManager, of example_getWorker "\<lambda>s. [''W1'']" "()" example_W2]
          example_createManager example_manager_publicKey nw
    by (auto simp: example_consts_def example_settings_def nullish_def)
qed

text \<open>
  C6, as stated, fails: when \<open>createTask\<close> throws a value that is not an \<open>Error\<close>, the
  route sends no response at all.
\<close>

theorem post_task_non_Error_no_response:
  "post_task (\<lambda>s task p. (Inl (Thrown (JStr ''boom'')), s)) example_manager (0::nat) (JObj [])
     = (None, 0)"
  by (simp add: post_task_def)

text \<open>
  C6, amended. When task creation succeeds, \<open>POST /task\<close> answers with status 200; when
  \<open>createTask\<close> throws an \<open>Error\<close>, it answers with status 500 and a body holding a
  \<open>status\<close> field and the error's message.
\<close>

theorem post_task_status:
  "(\<forall>s'. createTask s task (toString (getPeerId (entity m))) = (Inr (), s') \<longrightarrow>
      post_task createTask m s task
        = (Some \<lparr> status = 200,
                   body = JObj [(''status'', JStr ''Task received''), (''task'', task)] \<rparr>, s')) \<and>
   (\<forall>e s'. createTask s task (toString (getPeerId (entity m))) = (Inl e, s') \<and>
        instanceof_Error e \<longrightarrow>
      post_task createTask m s task
        = (Some \<lparr> status = 500,
                   body = JObj [(''status'', JStr ''Error creating task''),
                                (''error'', JStr (message e))] \<rparr>, s'))"
  by (simp add: post_task_def)

theorem post_task_status_witness:
  "example_createTask 0 (JObj []) (toString (getPeerId (entity example_manager))) = (Inr (), 1) \<and>
   post_task example_createTask example_manager 0 (JObj [])
     = (Some \<lparr> status = 200,
                body = JObj [(''status'', JStr ''Task received''), (''task'', JObj [])] \<rparr>, 1) \<and>
   example_createTask 0 JNull (toString (getPeerId (entity example_manager)))
     = (Inl (Error ''Invalid task''), 0) \<and>
   instanceof_Error (Error ''Invalid task'') \<and>
   post_task example_createTask example_manager 0 JNull
     = (Some \<lparr> status = 500,
                body = JObj [(''status'', JStr ''Error creating task''),
                             (''error'', JStr ''Invalid task'')] \<rparr>, 0)"
proof -
  have a: "example_createTask 0 (JObj []) (toString (getPeerId (entity example_manager)))
             = (Inr (), 1)"
    by (simp add: example_createTask_def)
  have b: "example_createTask 0 JNull (toString (getPeerId (entity example_manager)))
             = (Inl (Error ''Invalid task''), 0) \<and> instanceof_Error (Error ''Invalid task'')"
    by (simp add: example_createTask_def)
  from post_task_status [of example_createTask 0 "JObj []" example_manager] a
  have 1: "post_task example_createTask example_manager 0 (JObj [])
     = (Some \<lparr> status = 200,
                body = JObj [(''status'', JStr ''Task received''), (''task'', JObj [])] \<rparr>, 1)"
    by blast
  from post_task_status [of example_createTask 0 JNull example_manager] b
  have 2: "post_task example_createTask example_manager 0 JNull
     = (Some \<lparr> status = 500,
                body = JObj [(''status'', JStr ''Error creating task''),
                             (''error'', JStr (message (Error ''Invalid task'')))] \<rparr>, 0)"
    by blast
  from a b 1 2 show ?thesis by simp
qed

text \<open>
  C7, as stated, fails: no settings input gives the Manager an HTTP transport on a port
  other than 8889.
\<close>

theorem http_port_never_differs:
  "\<not> (\<exists>settings m.
        createManager example_consts example_toStringLarge example_eddsa example_utils example_solana
          example_peerIdOf () example_privateKey settings = Inr m \<and>
        http_ports (transports (entity m)) \<noteq> [8889])"
  by (auto simp add: createManager_entity createManagerEntity_def)

text \<open>
  C7, amended. Whatever the settings, the Manager's entity has one HTTP transport, and
  its port is 8889.
\<close>

theorem http_port_fixed:
  "createManager c toStringLarge eddsa utils solana peerIdOf ds privateKey settings = Inr m \<Longrightarrow>
     http_ports (transports (entity m)) = [8889]"
  by (simp add: createManager_entity createManagerEntity_def)

theorem http_port_fixed_witness:
  "createManager example_consts example_toStringLarge example_eddsa example_utils example_solana example_peerIdOf ()
     example_privateKey example_settings = Inr example_manager \<and>
   http_ports (transports (entity example_manager)) = [8889]"
  using http_port_fixed [OF example_createManager] example_createManager by simp

text \<open>
  C8. Whatever the settings, the \<open>batchSize\<close> of an identify response is the constant
  \<open>PAYMENT_BATCH_SIZE\<close>; a configured \<open>paymentBatchSize\<close> is kept in \<open>managerSettings\<close>
  and the handler does not read it.
\<close>

theorem identifyResponse_batchSize_constant:
  assumes "createManager c toStringLarge eddsa utils solana peerIdOf ds privateKey settings = Inr m"
      and "on_identifyRequest c solana getWorker workerQueue m s peerId
             = Inr (identifyResponse r)"
  shows "batchSize r = PAYMENT_BATCH_SIZE c \<and>
         paymentBatchSize (managerSettings m) =
           nullish (settings_paymentBatchSize settings) (PAYMENT_BATCH_SIZE c)"
  using identifyRequest_Inr [OF assms(2)] createManager_settings [OF assms(1)]
  by (auto simp: managerSettings_of_def)

theorem identifyResponse_batchSize_constant_witness:
  "createManager example_consts example_toStringLarge example_eddsa example_utils example_solana example_peerIdOf ()
     example_privateKey example_settings = Inr example_manager \<and>
   settings_paymentBatchSize example_settings = Some 4 \<and>
   (\<exists>r. on_identifyRequest example_consts example_solana example_getWorker (\<lambda>s. [''W1''])
         example_manager () example_W1 = Inr (identifyResponse r) \<and>
        batchSize r = 100 \<and> paymentBatchSize (managerSettings example_manager) = 4)"
  using identifyResponse_batchSize_constant [OF example_createManager example_identifyRequest]
        example_createManager example_identifyRequest
  by (simp add: example_consts_def example_settings_def nullish_def)

text \<open>
  C9. A \<open>bulkProofRequest\<close> throws when the sender has no worker record with a
  (non-empty) recipient, and throws when some proof has no signals. Otherwise, once
  Solana accepts the stored recipient as a key, that key is the recipient handed to
  \<open>bulkPaymentProofs\<close>; the forwarded recipient is the same for every request payload.
\<close>

theorem bulkProofRequest_recipient_from_worker_record:
  "((\<forall>w. getWorker s (toString peerId) = Some w \<longrightarrow>
        worker_recipient (worker_state w) = None \<or> worker_recipient (worker_state w) = Some [])
      \<longrightarrow> on_bulkProofRequest toStringLarge eddsa solana g getWorker bulkPaymentProofs m s req peerId
            = (Inl (Error ''Worker not found or recipient not set''), s)) \<and>
   (\<forall>w rcp. getWorker s (toString peerId) = Some w \<and>
        worker_recipient (worker_state w) = Some rcp \<and> rcp \<noteq> [] \<and>
        (\<exists>p \<in> set (proofs req). signals p = None)
      \<longrightarrow> on_bulkProofRequest toStringLarge eddsa solana g getWorker bulkPaymentProofs m s req peerId
            = (Inl (Error ''All proofs must have signals for bulk payment''), s)) \<and>
   (\<forall>w rcp rk. getWorker s (toString peerId) = Some w \<and>
        worker_recipient (worker_state w) = Some rcp \<and> rcp \<noteq> [] \<and>
        (\<forall>p \<in> set (proofs req). signals p \<noteq> None) \<and>
        PublicKey_of_string solana rcp = Inr rk
      \<longrightarrow> (\<exists>args. bulkProofRequest_args toStringLarge eddsa solana g getWorker m s req peerId = Inr args \<and>
             bulk_recipient args = rk \<and>
             on_bulkProofRequest toStringLarge eddsa solana g getWorker bulkPaymentProofs m s req peerId
               = bulkPaymentProofs s args)) \<and>
   (\<forall>req' args args'.
        bulkProofRequest_args toStringLarge eddsa solana g getWorker m s req peerId = Inr args \<and>
        bulkProofRequest_args toStringLarge eddsa solana g getWorker m s req' peerId = Inr args'
      \<longrightarrow> bulk_recipient args = bulk_recipient args')"
proof (intro conjI allI impI)
  assume "\<forall>w. getWorker s (toString peerId) = Some w \<longrightarrow>
        worker_recipient (worker_state w) = None \<or> worker_recipient (worker_state w) = Some []"
  then have "falsy_string (stored_recipient getWorker s peerId)"
    by (auto simp: falsy_string_def stored_recipient_def split: option.splits)
  then show "on_bulkProofRequest toStringLarge eddsa solana g getWorker bulkPaymentProofs m s req peerId
            = (Inl (Error ''Worker not found or recipient not set''), s)"
    by (simp add: on_bulkProofRequest_def bulkProofRequest_args_def)
next
  fix w rcp
  assume a: "getWorker s (toString peerId) = Some w \<and>
        worker_recipient (worker_state w) = Some rcp \<and> rcp \<noteq> [] \<and>
        (\<exists>p \<in> set (proofs req). signals p = None)"
  then have "\<not> falsy_string (stored_recipient getWorker s peerId)"
    by (simp add: falsy_string_def stored_recipient_def)
  moreover from a have "\<not> list_all (\<lambda>p. signals p \<noteq> None) (proofs req)"
    unfolding list_all_signals by blast
  ultimately show "on_bulkProofRequest toStringLarge eddsa solana g getWorker bulkPaymentProofs m s req peerId
            = (Inl (Error ''All proofs must have signals for bulk payment''), s)"
    by (simp add: on_bulkProofRequest_def bulkProofRequest_args_def)
next
  fix w rcp rk
  assume a: "getWorker s (toString peerId) = Some w \<and>
        worker_recipient (worker_state w) = Some rcp \<and> rcp \<noteq> [] \<and>
        (\<forall>p \<in> set (proofs req). signals p \<noteq> None) \<and>
        PublicKey_of_string solana rcp = Inr rk"
  then have sr: "stored_recipient getWorker s peerId = Some rcp"
    by (simp add: stored_recipient_def)
  from a have nf: "\<not> falsy_string (Some rcp)"
    by (simp add: falsy_string_def)
  from a have la: "list_all (\<lambda>p. signals p \<noteq> None) (proofs req)"
    unfolding list_all_signals by blast
  from a have "\<forall>p \<in> set (proofs req). \<exists>b. bulk_proof_of toStringLarge g p = Inr b"
    using bulk_proof_of_total by blast
  from map_throwing_total [OF this] obtain bs where
    bs: "map_throwing (bulk_proof_of toStringLarge g) (proofs req) = Inr bs"
    by blast
  from a have pk: "PublicKey_of_string solana rcp = Inr rk" by simp
  have "bulkProofRequest_args toStringLarge eddsa solana g getWorker m s req peerId =
          Inr \<lparr> bulk_recipient = rk, bulk_privateKey = manager_privateKey m,
                r8_x = F_toObject eddsa (fst (pubKey m)),
                r8_y = F_toObject eddsa (snd (pubKey m)),
                bulk_proofs = bs \<rparr>"
    using la by (simp add: bulkProofRequest_args_def sr nf bs pk)
  then show "\<exists>args. bulkProofRequest_args toStringLarge eddsa solana g getWorker m s req peerId = Inr args \<and>
             bulk_recipient args = rk \<and>
             on_bulkProofRequest toStringLarge eddsa solana g getWorker bulkPaymentProofs m s req peerId
               = bulkPaymentProofs s args"
    by (simp add: on_bulkProofRequest_def)
next
  fix req' args args'
  assume "bulkProofRequest_args toStringLarge eddsa solana g getWorker m s req peerId = Inr args \<and>
        bulkProofRequest_args toStringLarge eddsa solana g getWorker m s req' peerId = Inr args'"
  then show "bulk_recipient args = bulk_recipient args'"
    using bulkProofRequest_args_Inr [of toStringLarge eddsa solana g getWorker m s req peerId args]
      bulkProofRequest_args_Inr [of toStringLarge eddsa solana g getWorker m s req' peerId args']
    by auto
qed

theorem bulkProofRequest_recipient_from_worker_record_witness:
  "on_bulkProofRequest example_toStringLarge example_eddsa example_solana proofData example_getWorker
     example_bulkPaymentProofs example_manager () \<lparr> proofs = [example_proof] \<rparr> example_W2
     = (Inl (Error ''Worker not found or recipient not set''), ()) \<and>
   on_bulkProofRequest example_toStringLarge example_eddsa example_solana proofData example_getWorker
     example_bulkPaymentProofs example_manager ()
     \<lparr> proofs = [example_proof, example_proof \<lparr> signals := None \<rparr>] \<rparr> example_W1
     = (Inl (Error ''All proofs must have signals for bulk payment''), ()) \<and>
   map_option signals_recipient (signals example_proof) = Some ''R2'' \<and>
   PublicKey_of_string example_solana ''R1'' = Inr [1] \<and>
   on_bulkProofRequest example_toStringLarge example_eddsa example_solana proofData example_getWorker
     example_bulkPaymentProofs example_manager () \<lparr> proofs = [example_proof] \<rparr> example_W1
     = (Inr [1], ()) \<and>
   (\<exists>args args'.
      bulkProofRequest_args example_toStringLarge example_eddsa example_solana proofData example_getWorker
        example_manager () \<lparr> proofs = [example_proof] \<rparr> example_W1 = Inr args \<and>
      bulkProofRequest_args example_toStringLarge example_eddsa example_solana proofData example_getWorker
        example_manager () \<lparr> proofs = [example_proof, example_proof] \<rparr> example_W1 = Inr args' \<and>
      bulk_recipient args = bulk_recipient args')"
proof -
  let ?w = "\<lparr> worker_state = \<lparr> worker_recipient = Some ''R1'' \<rparr> \<rparr>"
  let ?on = "on_bulkProofRequest example_toStringLarge example_eddsa example_solana proofData example_getWorker
     example_bulkPaymentProofs example_manager ()"
  let ?args = "bulkProofRequest_args example_toStringLarge example_eddsa example_solana proofData example_getWorker
     example_manager ()"
  note inst = bulkProofRequest_recipient_from_worker_record
               [of example_getWorker "()" _ example_toStringLarge example_eddsa example_solana proofData
                   example_bulkPaymentProofs example_manager]
  have w1: "example_getWorker () (toString example_W1) = Some ?w \<and>
        worker_recipient (worker_state ?w) = Some ''R1'' \<and> ''R1'' \<noteq> []"
    by (simp add: example_getWorker_def example_W1_def)
  have w2: "\<forall>w. example_getWorker () (toString example_W2) = Some w \<longrightarrow>
        worker_recipient (worker_state w) = None \<or> worker_recipient (worker_state w) = Some []"
    by (simp add: example_getWorker_def example_W2_def)
  have bad: "\<exists>p \<in> set (proofs \<lparr> proofs = [example_proof, example_proof \<lparr> signals := None \<rparr>] \<rparr>).
        signals p = None"
    by simp
  have good: "(\<forall>p \<in> set (proofs \<lparr> proofs = [example_proof] \<rparr>). signals p \<noteq> None) \<and>
        PublicKey_of_string example_solana ''R1'' = Inr [1]"
    by (simp add: example_proof_def example_solana_def)
  have good': "(\<forall>p \<in> set (proofs \<lparr> proofs = [example_proof, example_proof] \<rparr>).
        signals p \<noteq> None) \<and> PublicKey_of_string example_solana ''R1'' = Inr [1]"
    by (simp add: example_proof_def example_solana_def)
  have sg: "map_option signals_recipient (signals example_proof) = Some ''R2''"
    by (simp add: example_proof_def)
  from inst [of example_W2 "\<lparr> proofs = [example_proof] \<rparr>"] w2
  have 1: "?on \<lparr> proofs = [example_proof] \<rparr> example_W2
     = (Inl (Error ''Worker not found or recipient not set''), ())"
    by blast
  from inst [of example_W1 "\<lparr> proofs = [example_proof, example_proof \<lparr> signals := None \<rparr>] \<rparr>"]
    w1 bad
  have 2: "?on \<lparr> proofs = [example_proof, example_proof \<lparr> signals := None \<rparr>] \<rparr> example_W1
     = (Inl (Error ''All proofs must have signals for bulk payment''), ())"
    by blast
  from inst [of example_W1 "\<lparr> proofs = [example_proof] \<rparr>"] w1 good
  obtain args where a: "?args \<lparr> proofs = [example_proof] \<rparr> example_W1 = Inr args"
    and r: "bulk_recipient args = [1]"
    and f: "?on \<lparr> proofs = [example_proof] \<rparr> example_W1 = example_bulkPaymentProofs () args"
    by blast
  from r f have 3: "?on \<lparr> proofs = [example_proof] \<rparr> example_W1 = (Inr [1], ())"
    by (simp add: example_bulkPaymentProofs_def)
  from inst [of example_W1 "\<lparr> proofs = [example_proof, example_proof] \<rparr>"] w1 good'
  obtain args' where a': "?args \<lparr> proofs = [example_proof, example_proof] \<rparr> example_W1 = Inr args'"
    and r': "bulk_recipient args' = [1]"
    by blast
  from a a' r r' have 4: "\<exists>args args'.
      ?args \<lparr> proofs = [example_proof] \<rparr> example_W1 = Inr args \<and>
      ?args \<lparr> proofs = [example_proof, example_proof] \<rparr> example_W1 = Inr args' \<and>
      bulk_recipient args = bulk_recipient args'"
    by simp
  from 1 2 3 4 sg good show ?thesis by simp
qed

end
